theory Spec2Isabelle
  imports Main
begin

section \<open>Content plugins of fluent\_contents: output cache keys\<close>

text \<open>
  This theory embeds \<^verbatim>\<open>fluent_contents/extensions/pluginbase.py\<close>: the class
  \<^verbatim>\<open>ContentPlugin\<close> with its cache key derivation, its output cache accessors, its
  rendering entry points and the memoised \<^verbatim>\<open>type_id\<close> property.

  What the module imports from elsewhere is made explicit:
  \<^item> \<^verbatim>\<open>fluent_contents.cache.get_rendering_cache_key\<close> is a function of this package
    whose body is not part of the module; every definition that calls it takes it as
    its first argument, of type \<open>string \<Rightarrow> 'i \<Rightarrow> string\<close>, and where the effects of
    a call are the subject, as a function that also takes and returns the state;
  \<^item> \<^verbatim>\<open>django.conf.settings\<close> is a record read by the functions;
  \<^item> \<^verbatim>\<open>Site.objects.values_list('pk', flat=True)\<close> is the list of primary keys of the
    site table, passed as an argument;
  \<^item> \<^verbatim>\<open>django.core.cache.cache\<close> is a key-value store, a map from keys to values that
    is passed in and returned.
\<close>

subsection \<open>Python string formatting of integers\<close>

text \<open>
  \<^verbatim>\<open>"{0}-s{1}".format(cachekey, site_id)\<close> renders the site id, an integer, in decimal,
  with a leading minus sign when it is negative.
\<close>

definition digit_char :: "nat \<Rightarrow> char" where
  "digit_char d = ''0123456789'' ! d"

fun str_nat :: "nat \<Rightarrow> string" where
  "str_nat n = (if n < 10 then [digit_char n] else str_nat (n div 10) @ [digit_char (n mod 10)])"

declare str_nat.simps [simp del]

definition str_int :: "int \<Rightarrow> string" where
  "str_int i = (if i < 0 then CHR ''-'' # str_nat (nat (- i)) else str_nat (nat i))"

text \<open>Reading a decimal numeral back; used only to show that \<open>str_nat\<close> loses nothing.\<close>

definition digit_val :: "char \<Rightarrow> nat" where
  "digit_val c = of_char c - 48"

definition nat_of_digits :: "string \<Rightarrow> nat" where
  "nat_of_digits s = foldl (\<lambda>a c. 10 * a + digit_val c) 0 s"

subsection \<open>Settings and the plugin object\<close>

record settings =
  SITE_ID :: int
  DEBUG :: bool

text \<open>
  The attributes of a \<^verbatim>\<open>ContentPlugin\<close> that the modelled methods read.
  \<open>class_name\<close> is \<^verbatim>\<open>self.__class__.__name__\<close>; \<open>priv_type_id\<close> is the attribute
  \<^verbatim>\<open>self._type_id\<close>, which \<^verbatim>\<open>__init__\<close> sets to \<^verbatim>\<open>None\<close>.
\<close>

record 'm ContentPlugin =
  class_name :: string
  model :: 'm
  render_template :: "string option"
  cache_output :: bool
  cache_output_per_site :: bool
  priv_type_id :: "int option"

text \<open>The class attributes as the base class declares them, and \<^verbatim>\<open>__init__\<close>.\<close>

definition init :: "string \<Rightarrow> 'm \<Rightarrow> 'm ContentPlugin" where
  "init name m =
     \<lparr>class_name = name, model = m, render_template = None,
      cache_output = True, cache_output_per_site = False, priv_type_id = None\<rparr>"

subsection \<open>Cache keys\<close>

text \<open>The format string \<^verbatim>\<open>"{0}-s{1}"\<close> applied to a key and a site id.\<close>

definition site_key :: "string \<Rightarrow> int \<Rightarrow> string" where
  "site_key cachekey site_id = cachekey @ ''-s'' @ str_int site_id"

definition get_output_cache_key ::
  "(string \<Rightarrow> 'i \<Rightarrow> string) \<Rightarrow> settings \<Rightarrow> 'm ContentPlugin \<Rightarrow> string \<Rightarrow> 'i \<Rightarrow> string" where
  "get_output_cache_key get_rendering_cache_key st self placeholder_name instance =
     (let cachekey = get_rendering_cache_key placeholder_name instance in
      if cache_output_per_site self then site_key cachekey (SITE_ID st) else cachekey)"

definition get_output_cache_keys ::
  "(string \<Rightarrow> 'i \<Rightarrow> string) \<Rightarrow> settings \<Rightarrow> int list \<Rightarrow> 'm ContentPlugin \<Rightarrow> string \<Rightarrow> 'i
     \<Rightarrow> string list" where
  "get_output_cache_keys get_rendering_cache_key st site_pks self placeholder_name instance =
     (if cache_output_per_site self then
        let site_ids = site_pks;
            site_ids = (if SITE_ID st \<notin> set site_ids then site_ids @ [SITE_ID st] else site_ids);
            base_key = get_rendering_cache_key placeholder_name instance
        in map (\<lambda>site_id. site_key base_key site_id) site_ids
      else [get_output_cache_key get_rendering_cache_key st self placeholder_name instance])"

subsection \<open>The output cache\<close>

text \<open>
  \<^verbatim>\<open>cache.get(key)\<close> returns the stored value or \<^verbatim>\<open>None\<close>; \<^verbatim>\<open>cache.set(key, value)\<close>
  stores the value under the key. The store is the map that the two accessors share.
\<close>

type_synonym 'h cache = "string \<rightharpoonup> 'h"

definition get_cached_output ::
  "(string \<Rightarrow> 'i \<Rightarrow> string) \<Rightarrow> settings \<Rightarrow> 'm ContentPlugin \<Rightarrow> 'h cache \<Rightarrow> string \<Rightarrow> 'i
     \<Rightarrow> 'h option" where
  "get_cached_output get_rendering_cache_key st self cache placeholder_name instance =
     (let cachekey = get_output_cache_key get_rendering_cache_key st self placeholder_name instance
      in cache cachekey)"

definition set_cached_output ::
  "(string \<Rightarrow> 'i \<Rightarrow> string) \<Rightarrow> settings \<Rightarrow> 'm ContentPlugin \<Rightarrow> 'h cache \<Rightarrow> string \<Rightarrow> 'i \<Rightarrow> 'h
     \<Rightarrow> 'h cache" where
  "set_cached_output get_rendering_cache_key st self cache placeholder_name instance html =
     (let cachekey = get_output_cache_key get_rendering_cache_key st self placeholder_name instance
      in cache(cachekey \<mapsto> html))"

subsection \<open>A call of the key derivation as a step of the process\<close>

text \<open>
  What a call can read and write: the settings, the plugin object, the cache store and
  the site table. A call is a function from this state to its result and the state
  after it. Here \<^verbatim>\<open>get_rendering_cache_key\<close> is such a call as well, so that nothing
  about its effects is fixed by its type. \<^verbatim>\<open>get_output_cache_key\<close> calls it first, and
  then reads \<^verbatim>\<open>self.cache_output_per_site\<close> and \<^verbatim>\<open>settings.SITE_ID\<close>; it assigns to its
  local variable \<^verbatim>\<open>cachekey\<close> only.
\<close>

record ('m, 'h) process =
  django_settings :: settings
  plugin_object :: "'m ContentPlugin"
  cache_store :: "'h cache"
  site_table :: "int list"

definition get_output_cache_key_call ::
  "(string \<Rightarrow> 'i \<Rightarrow> ('m, 'h) process \<Rightarrow> string \<times> ('m, 'h) process)
     \<Rightarrow> string \<Rightarrow> 'i \<Rightarrow> ('m, 'h) process \<Rightarrow> string \<times> ('m, 'h) process" where
  "get_output_cache_key_call get_rendering_cache_key placeholder_name instance ps =
     (case get_rendering_cache_key placeholder_name instance ps of
        (cachekey, ps1) \<Rightarrow>
          if cache_output_per_site (plugin_object ps1)
          then (cachekey @ ''-s'' @ str_int (SITE_ID (django_settings ps1)), ps1)
          else (cachekey, ps1))"

subsection \<open>Errors\<close>

text \<open>
  An exception is a value: \<^verbatim>\<open>django.db.DatabaseError\<close>, which \<^verbatim>\<open>type_id\<close> catches,
  or any other exception. Each carries its message, which is what \<^verbatim>\<open>str(error)\<close>
  returns.
\<close>

datatype error = DatabaseError string | Exception string

fun str :: "error \<Rightarrow> string" where
  "str (DatabaseError msg) = msg"
| "str (Exception msg) = msg"

subsection \<open>The memoised content type id\<close>

text \<open>
  \<^verbatim>\<open>ContentType.objects.get_for_model(self.model).id\<close> is the argument \<open>get_for_model\<close>:
  it returns the id of the content type of a model, or raises. The property returns
  its result together with the plugin object, whose \<open>priv_type_id\<close> it may have set.
\<close>

definition type_id ::
  "('m \<Rightarrow> error + int) \<Rightarrow> 'm ContentPlugin \<Rightarrow> (error + int) \<times> 'm ContentPlugin" where
  "type_id get_for_model self =
     (case priv_type_id self of
        None \<Rightarrow>
          (case get_for_model (model self) of
             Inr ct_id \<Rightarrow> (Inr ct_id, self\<lparr>priv_type_id := Some ct_id\<rparr>)
           | Inl (DatabaseError e) \<Rightarrow>
               (Inl (DatabaseError
                  (''Unable to fetch ContentType object, is a plugin being registered before the initial syncdb? (original error: ''
                   @ e @ '')'')), self)
           | Inl other \<Rightarrow> (Inl other, self))
      | Some cached \<Rightarrow> (Inr cached, self))"

subsection \<open>Rendering\<close>

text \<open>
  The request context processors of Django are an argument; \<^verbatim>\<open>_add_debug\<close> is the
  module's own. A context value is a truth value or a value of Django's.
  \<^verbatim>\<open>Context.update\<close> puts a mapping on top of the context, so that its entries are
  found first.
\<close>

definition add_debug :: "settings \<Rightarrow> 'r \<Rightarrow> (string \<rightharpoonup> bool + 'v)" where
  "add_debug st request = [''debug'' \<mapsto> Inl (DEBUG st)]"

definition STANDARD_REQUEST_CONTEXT_PROCESSORS ::
  "('r \<Rightarrow> (string \<rightharpoonup> bool + 'v)) list \<Rightarrow> settings \<Rightarrow> ('r \<Rightarrow> (string \<rightharpoonup> bool + 'v)) list" where
  "STANDARD_REQUEST_CONTEXT_PROCESSORS django_processors st = django_processors @ [add_debug st]"

definition PluginContext ::
  "('r \<Rightarrow> (string \<rightharpoonup> bool + 'v)) list \<Rightarrow> settings \<Rightarrow> 'r \<Rightarrow> (string \<rightharpoonup> bool + 'v)
     \<Rightarrow> (string \<rightharpoonup> bool + 'v)" where
  "PluginContext django_processors st request dict =
     foldl (\<lambda>self processor. self ++ processor request) dict
       (STANDARD_REQUEST_CONTEXT_PROCESSORS django_processors st)"

definition get_render_template :: "'m ContentPlugin \<Rightarrow> 'r \<Rightarrow> 'i \<Rightarrow> string option" where
  "get_render_template self request instance = render_template self"

definition get_context :: "'r \<Rightarrow> 'i \<Rightarrow> (string \<rightharpoonup> 'i)" where
  "get_context request instance = [''instance'' \<mapsto> instance]"

text \<open>
  \<^verbatim>\<open>django.template.loader.render_to_string\<close> is the argument
  \<open>django_render_to_string\<close>: it returns the rendered template or raises.
\<close>

definition render_to_string ::
  "(string \<Rightarrow> (string \<rightharpoonup> 'i) \<Rightarrow> (string \<rightharpoonup> bool + 'v) \<Rightarrow> error + string)
     \<Rightarrow> ('r \<Rightarrow> (string \<rightharpoonup> bool + 'v)) list \<Rightarrow> settings
     \<Rightarrow> 'r \<Rightarrow> string \<Rightarrow> (string \<rightharpoonup> 'i) \<Rightarrow> (string \<rightharpoonup> bool + 'v) option \<Rightarrow> error + string" where
  "render_to_string django_render_to_string django_processors st
       request template context content_instance =
     (let content_instance =
        (case content_instance of
           None \<Rightarrow> PluginContext django_processors st request Map.empty
         | Some c \<Rightarrow> c)
      in django_render_to_string template context content_instance)"

text \<open>
  \<^verbatim>\<open>u"{No rendering defined for class '%s'}" % self.__class__.__name__\<close>; the character
  \<open>CHR 0x27\<close> is the apostrophe.
\<close>

definition no_rendering_message :: "'m ContentPlugin \<Rightarrow> string" where
  "no_rendering_message self =
     ''{No rendering defined for class '' @ [CHR 0x27] @ class_name self @ [CHR 0x27] @ ''}''"

text \<open>
  \<^verbatim>\<open>not render_template\<close> holds for \<^verbatim>\<open>None\<close> and for the empty string.
  \<open>ugettext\<close> is Django's translation function.
\<close>

definition render ::
  "(string \<Rightarrow> string)
     \<Rightarrow> (string \<Rightarrow> (string \<rightharpoonup> 'i) \<Rightarrow> (string \<rightharpoonup> bool + 'v) \<Rightarrow> error + string)
     \<Rightarrow> ('r \<Rightarrow> (string \<rightharpoonup> bool + 'v)) list \<Rightarrow> settings
     \<Rightarrow> 'm ContentPlugin \<Rightarrow> 'r \<Rightarrow> 'i \<Rightarrow> error + string" where
  "render ugettext django_render_to_string django_processors st self request instance =
     (case get_render_template self request instance of
        None \<Rightarrow> Inr (ugettext (no_rendering_message self))
      | Some template \<Rightarrow>
          if template = [] then Inr (ugettext (no_rendering_message self))
          else
            let context = get_context request instance
            in render_to_string django_render_to_string django_processors st
                 request template context None)"

definition render_contentitem ::
  "(string \<Rightarrow> string)
     \<Rightarrow> (string \<Rightarrow> (string \<rightharpoonup> 'i) \<Rightarrow> (string \<rightharpoonup> bool + 'v) \<Rightarrow> error + string)
     \<Rightarrow> ('r \<Rightarrow> (string \<rightharpoonup> bool + 'v)) list \<Rightarrow> settings
     \<Rightarrow> 'm ContentPlugin \<Rightarrow> 'r \<Rightarrow> 'i \<Rightarrow> error + string" where
  "render_contentitem ugettext django_render_to_string django_processors st self request instance =
     render ugettext django_render_to_string django_processors st self request instance"

subsection \<open>Rendering an error\<close>

text \<open>
  \<^verbatim>\<open>str.replace(old, new)\<close> for a one-character \<^verbatim>\<open>old\<close>.
\<close>

definition replace :: "char \<Rightarrow> string \<Rightarrow> string \<Rightarrow> string" where
  "replace old new s = concat (map (\<lambda>c. if c = old then new else [c]) s)"

text \<open>
  \<^verbatim>\<open>django.utils.html.escape\<close>, as in the Django releases that this module runs on:
  \<^verbatim>\<open>html.replace('&', '&amp;').replace('<', '&lt;').replace('>', '&gt;')
      .replace('"', '&quot;').replace("'", '&#39;')\<close>.
  \<open>CHR 0x22\<close> is the double quote.
\<close>

definition escape :: "string \<Rightarrow> string" where
  "escape html =
     replace (CHR 0x27) ''&#39;''
       (replace (CHR 0x22) ''&quot;''
          (replace CHR ''>'' ''&gt;''
             (replace CHR ''<'' ''&lt;''
                (replace CHR ''&'' ''&amp;'' html))))"

text \<open>
  \<^verbatim>\<open>django.utils.html.linebreaks\<close> without autoescaping:
  \<^verbatim>\<open>value = re.sub(r'\r\n|\r|\n', '\n', value)\<close>, then
  \<^verbatim>\<open>paras = re.split('\n{2,}', value)\<close>, then every paragraph \<^verbatim>\<open>p\<close> becomes
  \<^verbatim>\<open>'<p>%s</p>' % p.replace('\n', '<br />')\<close>, and the paragraphs are joined by
  \<^verbatim>\<open>'\n\n'\<close>. \<open>CHR 0x0A\<close> is the line feed and \<open>CHR 0x0D\<close> the carriage return.
\<close>

fun normalize_newlines :: "string \<Rightarrow> string" where
  "normalize_newlines [] = []"
| "normalize_newlines [c] = [if c = CHR 0x0D then CHR 0x0A else c]"
| "normalize_newlines (c # d # ds) =
     (if c = CHR 0x0D \<and> d = CHR 0x0A then CHR 0x0A # normalize_newlines ds
      else (if c = CHR 0x0D then CHR 0x0A else c) # normalize_newlines (d # ds))"

text \<open>
  Splitting at every maximal run of two or more line feeds. The result is never empty,
  so the first case of the inner \<open>case\<close> is not reached.
\<close>

function split_paras :: "string \<Rightarrow> string list" where
  "split_paras [] = [[]]"
| "split_paras (c # cs) =
     (if c = CHR 0x0A \<and> take 1 cs = [CHR 0x0A]
      then [] # split_paras (dropWhile (\<lambda>x. x = CHR 0x0A) cs)
      else (case split_paras cs of
              [] \<Rightarrow> [[c]]
            | p # ps \<Rightarrow> (c # p) # ps))"
  by pat_completeness auto
termination
  by (relation "measure length") (auto simp: length_dropWhile_le less_Suc_eq_le)

fun join :: "string \<Rightarrow> string list \<Rightarrow> string" where
  "join sep [] = []"
| "join sep [x] = x"
| "join sep (x # y # ys) = x @ sep @ join sep (y # ys)"

definition linebreaks :: "string \<Rightarrow> string" where
  "linebreaks v =
     (let v = normalize_newlines v;
          paras = split_paras v;
          paras = map (\<lambda>p. ''<p>'' @ replace (CHR 0x0A) ''<br />'' p @ ''</p>'') paras
      in join [CHR 0x0A, CHR 0x0A] paras)"

definition render_error :: "(string \<Rightarrow> string) \<Rightarrow> error \<Rightarrow> string" where
  "render_error ugettext error =
     ''<div style=\"color: red; border: 1px solid red; padding: 5px;\">'' @
     ''<p><strong>'' @ ugettext ''Error:'' @ ''</strong></p>'' @
     linebreaks (escape (str error)) @ ''</div>''"

subsection \<open>What escaped text is\<close>

text \<open>
  The entity of one character, and the check that every \<open><\<close> of a string opens one of
  the three tags that \<open>linebreaks\<close> writes.
\<close>

definition escape_char :: "char \<Rightarrow> string" where
  "escape_char c =
     (if c = CHR ''&'' then ''&amp;''
      else if c = CHR ''<'' then ''&lt;''
      else if c = CHR ''>'' then ''&gt;''
      else if c = CHR 0x22 then ''&quot;''
      else if c = CHR 0x27 then ''&#39;''
      else [c])"

fun only_linebreak_tags :: "string \<Rightarrow> bool" where
  "only_linebreak_tags [] = True"
| "only_linebreak_tags (c # cs) =
     ((if c = CHR ''<''
       then take 2 cs = ''p>'' \<or> take 3 cs = ''/p>'' \<or> take 5 cs = ''br />''
       else True) \<and> only_linebreak_tags cs)"

section \<open>Decimal rendering is injective\<close>

lemma lt10_cases: "d < (10::nat) \<Longrightarrow> d \<in> {0, 1, 2, 3, 4, 5, 6, 7, 8, 9}"
  by auto

lemma digit_val_digit_char: "d < 10 \<Longrightarrow> digit_val (digit_char d) = d"
  by (drule lt10_cases) (auto simp: digit_val_def digit_char_def)

lemma digit_char_not_minus: "d < 10 \<Longrightarrow> digit_char d \<noteq> CHR ''-''"
  by (drule lt10_cases) (auto simp: digit_char_def)

lemma nat_of_digits_snoc: "nat_of_digits (s @ [c]) = 10 * nat_of_digits s + digit_val c"
  by (simp add: nat_of_digits_def)

lemma nat_of_digits_str_nat: "nat_of_digits (str_nat n) = n"
proof (induction n rule: str_nat.induct)
  case (1 n)
  show ?case
  proof (cases "n < 10")
    case True
    then show ?thesis
      by (subst str_nat.simps) (simp add: nat_of_digits_def digit_val_digit_char)
  next
    case False
    with 1 show ?thesis
      by (subst str_nat.simps) (simp add: nat_of_digits_snoc digit_val_digit_char)
  qed
qed

lemma str_nat_inj: "str_nat m = str_nat n \<Longrightarrow> m = n"
  by (metis nat_of_digits_str_nat)

lemma str_nat_no_minus: "CHR ''-'' \<notin> set (str_nat n)"
proof (induction n rule: str_nat.induct)
  case (1 n)
  show ?case
  proof (cases "n < 10")
    case True
    then show ?thesis
      using digit_char_not_minus [of n] by (subst str_nat.simps) auto
  next
    case False
    with 1 show ?thesis
      using digit_char_not_minus [of "n mod 10"] by (subst str_nat.simps) auto
  qed
qed

lemma str_int_inj: "str_int i = str_int j \<Longrightarrow> i = j"
proof -
  assume eq: "str_int i = str_int j"
  have neg: "CHR ''-'' # str_nat a \<noteq> str_nat b" for a b
    using str_nat_no_minus [of b] by (metis list.set_intros(1))
  show ?thesis
  proof (cases "i < 0"; cases "j < 0")
    assume "i < 0" "j < 0"
    with eq have "nat (- i) = nat (- j)" by (simp add: str_int_def str_nat_inj)
    with \<open>i < 0\<close> \<open>j < 0\<close> show ?thesis by simp
  next
    assume "i < 0" "\<not> j < 0"
    with eq neg show ?thesis by (simp add: str_int_def)
  next
    assume "\<not> i < 0" "j < 0"
    with eq neg [of "nat (- j)" "nat i"] show ?thesis by (simp add: str_int_def)
  next
    assume "\<not> i < 0" "\<not> j < 0"
    with eq have "nat i = nat j" by (simp add: str_int_def str_nat_inj)
    with \<open>\<not> i < 0\<close> \<open>\<not> j < 0\<close> show ?thesis by simp
  qed
qed

lemma site_key_inj: "site_key k i = site_key k j \<longleftrightarrow> i = j"
  by (auto simp: site_key_def dest: str_int_inj)

section \<open>Escaping and line breaks\<close>

lemma replace_append: "replace old new (xs @ ys) = replace old new xs @ replace old new ys"
  by (simp add: replace_def)

lemma escape_append: "escape (xs @ ys) = escape xs @ escape ys"
  by (simp add: escape_def replace_append)

lemma escape_single: "escape [c] = escape_char c"
  by (simp add: escape_def escape_char_def replace_def)

lemma escape_concat_map: "escape s = concat (map escape_char s)"
proof (induction s)
  case Nil
  show ?case by (simp add: escape_def replace_def)
next
  case (Cons c s)
  have "escape (c # s) = escape [c] @ escape s"
    using escape_append [of "[c]" s] by simp
  with Cons show ?case by (simp add: escape_single)
qed

lemma escape_char_safe:
  "CHR ''<'' \<notin> set (escape_char c)" "CHR ''>'' \<notin> set (escape_char c)"
  "CHR 0x22 \<notin> set (escape_char c)" "CHR 0x27 \<notin> set (escape_char c)"
  by (auto simp: escape_char_def)

lemma escape_safe:
  "CHR ''<'' \<notin> set (escape s)" "CHR ''>'' \<notin> set (escape s)"
  "CHR 0x22 \<notin> set (escape s)" "CHR 0x27 \<notin> set (escape s)"
  by (auto simp: escape_concat_map escape_char_safe)

lemma take_append_eq: "take n xs = ys \<Longrightarrow> length ys = n \<Longrightarrow> take n (xs @ zs) = ys"
  by (metis append_eq_conv_conj append_take_drop_id append.assoc)

lemma olt_append:
  "only_linebreak_tags a \<Longrightarrow> only_linebreak_tags b \<Longrightarrow> only_linebreak_tags (a @ b)"
proof (induction a)
  case Nil
  then show ?case by simp
next
  case (Cons c cs)
  then have tl: "only_linebreak_tags (cs @ b)" by simp
  show ?case
  proof (cases "c = CHR ''<''")
    case False
    with tl show ?thesis by simp
  next
    case True
    with Cons.prems(1)
    have "take 2 cs = ''p>'' \<or> take 3 cs = ''/p>'' \<or> take 5 cs = ''br />''" by simp
    then have "take 2 (cs @ b) = ''p>'' \<or> take 3 (cs @ b) = ''/p>'' \<or> take 5 (cs @ b) = ''br />''"
      using take_append_eq [of 2 cs "''p>''" b] take_append_eq [of 3 cs "''/p>''" b]
        take_append_eq [of 5 cs "''br />''" b]
      by auto
    with tl True show ?thesis by simp
  qed
qed

lemma olt_concat: "(\<And>x. x \<in> set xs \<Longrightarrow> only_linebreak_tags x) \<Longrightarrow> only_linebreak_tags (concat xs)"
  by (induction xs) (auto intro: olt_append)

lemma olt_text: "CHR ''<'' \<notin> set s \<Longrightarrow> only_linebreak_tags s"
  by (induction s) auto

lemma olt_replace_br:
  "CHR ''<'' \<notin> set p \<Longrightarrow> only_linebreak_tags (replace (CHR 0x0A) ''<br />'' p)"
  unfolding replace_def by (rule olt_concat) auto

lemma olt_para:
  assumes "CHR ''<'' \<notin> set p"
  shows "only_linebreak_tags (''<p>'' @ replace (CHR 0x0A) ''<br />'' p @ ''</p>'')"
proof -
  have a: "only_linebreak_tags ''<p>''" and b: "only_linebreak_tags ''</p>''"
    by simp_all
  from olt_append [OF olt_replace_br [OF assms] b] olt_append [OF a] show ?thesis
    by blast
qed

lemma olt_join:
  "only_linebreak_tags sep \<Longrightarrow> (\<And>x. x \<in> set xs \<Longrightarrow> only_linebreak_tags x)
     \<Longrightarrow> only_linebreak_tags (join sep xs)"
  by (induction sep xs rule: join.induct) (auto intro: olt_append)

lemma set_normalize_newlines: "set (normalize_newlines s) \<subseteq> insert (CHR 0x0A) (set s)"
  by (induction s rule: normalize_newlines.induct) auto

lemma set_split_paras: "p \<in> set (split_paras s) \<Longrightarrow> set p \<subseteq> set s"
proof (induction s arbitrary: p rule: split_paras.induct)
  case 1
  then show ?case by simp
next
  case (2 c cs)
  show ?case
  proof (cases "c = CHR 0x0A \<and> take 1 cs = [CHR 0x0A]")
    case True
    with 2 have "p = [] \<or> p \<in> set (split_paras (dropWhile (\<lambda>x. x = CHR 0x0A) cs))"
      by simp
    then show ?thesis
    proof
      assume "p = []" then show ?thesis by simp
    next
      assume "p \<in> set (split_paras (dropWhile (\<lambda>x. x = CHR 0x0A) cs))"
      with 2(1) True have "set p \<subseteq> set (dropWhile (\<lambda>x. x = CHR 0x0A) cs)" by blast
      then show ?thesis using set_dropWhileD by fastforce
    qed
  next
    case False
    show ?thesis
    proof (cases "split_paras cs")
      case Nil
      with 2(3) False show ?thesis by auto
    next
      case (Cons q qs)
      with 2(3) False have "p = c # q \<or> p \<in> set qs" by auto
      then show ?thesis
      proof
        assume "p = c # q"
        moreover have "set q \<subseteq> set cs" using 2(2) [OF False, of q] Cons by simp
        ultimately show ?thesis by auto
      next
        assume "p \<in> set qs"
        then have "set p \<subseteq> set cs" using 2(2) [OF False, of p] Cons by simp
        then show ?thesis by auto
      qed
    qed
  qed
qed

lemma olt_linebreaks:
  assumes "CHR ''<'' \<notin> set t"
  shows "only_linebreak_tags (linebreaks t)"
proof -
  have n: "CHR ''<'' \<notin> set (normalize_newlines t)"
    using assms set_normalize_newlines [of t] by auto
  have "only_linebreak_tags x"
    if "x \<in> set (map (\<lambda>p. ''<p>'' @ replace (CHR 0x0A) ''<br />'' p @ ''</p>'')
                   (split_paras (normalize_newlines t)))" for x
  proof -
    from that obtain p where p: "p \<in> set (split_paras (normalize_newlines t))"
      and x: "x = ''<p>'' @ replace (CHR 0x0A) ''<br />'' p @ ''</p>''" by auto
    from set_split_paras [OF p] n have "CHR ''<'' \<notin> set p" by auto
    with x show ?thesis using olt_para by simp
  qed
  then show ?thesis
    unfolding linebreaks_def Let_def by (intro olt_join) simp_all
qed

section \<open>Properties of the cache keys\<close>

text \<open>
  C1. When per-site caching is disabled, \<open>get_output_cache_keys\<close> returns exactly one
  key, the base key. When it is enabled, it returns one key per known site id, in
  order, followed by a key for the current site id exactly when the current site id is
  not among the known ones; so the list has as many keys as there are known sites when
  the current site is known, and one more when it is not.
\<close>

theorem get_output_cache_keys_listing:
  "(\<not> cache_output_per_site self \<longrightarrow>
      get_output_cache_keys g st site_pks self pn inst = [g pn inst]) \<and>
   (cache_output_per_site self \<longrightarrow>
      get_output_cache_keys g st site_pks self pn inst =
        map (site_key (g pn inst)) site_pks @
        (if SITE_ID st \<in> set site_pks then [] else [site_key (g pn inst) (SITE_ID st)]) \<and>
      length (get_output_cache_keys g st site_pks self pn inst) =
        (if SITE_ID st \<in> set site_pks then length site_pks else length site_pks + 1))"
  by (simp add: get_output_cache_keys_def get_output_cache_key_def)

theorem get_output_cache_keys_listing_witness:
  "get_output_cache_keys (\<lambda>p (i::nat). p) \<lparr>SITE_ID = 3, DEBUG = False\<rparr> [1, 2]
     (init ''TextPlugin'' ()) ''main'' 7 = [''main''] \<and>
   get_output_cache_keys (\<lambda>p (i::nat). p) \<lparr>SITE_ID = 3, DEBUG = False\<rparr> [1, 2]
     ((init ''TextPlugin'' ())\<lparr>cache_output_per_site := True\<rparr>) ''main'' 7 =
     [''main-s1'', ''main-s2'', ''main-s3''] \<and>
   length (get_output_cache_keys (\<lambda>p (i::nat). p) \<lparr>SITE_ID = 2, DEBUG = False\<rparr> [1, 2]
     ((init ''TextPlugin'' ())\<lparr>cache_output_per_site := True\<rparr>) ''main'' 7) = 2"
  using get_output_cache_keys_listing
      [of "init ''TextPlugin'' ()" "\<lambda>p (i::nat). p" "\<lparr>SITE_ID = 3, DEBUG = False\<rparr>" "[1, 2]"
          "''main''" 7]
    get_output_cache_keys_listing
      [of "(init ''TextPlugin'' ())\<lparr>cache_output_per_site := True\<rparr>" "\<lambda>p (i::nat). p"
          "\<lparr>SITE_ID = 3, DEBUG = False\<rparr>" "[1, 2]" "''main''" 7]
    get_output_cache_keys_listing
      [of "(init ''TextPlugin'' ())\<lparr>cache_output_per_site := True\<rparr>" "\<lambda>p (i::nat). p"
          "\<lparr>SITE_ID = 2, DEBUG = False\<rparr>" "[1, 2]" "''main''" 7]
  by (simp add: init_def site_key_def str_int_def str_nat.simps digit_char_def)

text \<open>
  C2. Whatever the per-site setting, the known site ids and the current site id, the
  key that \<open>get_output_cache_key\<close> returns is one of the keys that
  \<open>get_output_cache_keys\<close> returns: the entry that is read and written is among the
  entries that invalidation clears.
\<close>

theorem get_output_cache_key_in_keys:
  "get_output_cache_key g st self pn inst \<in> set (get_output_cache_keys g st site_pks self pn inst)"
  by (simp add: get_output_cache_keys_def get_output_cache_key_def)

text \<open>
  C3. Storing an output with \<open>set_cached_output\<close> and reading it back with
  \<open>get_cached_output\<close>, for the same placeholder name and instance, under the same
  settings and plugin and with no other write to the store in between, returns the
  stored output. Both accessors address the store through the one key that
  \<open>get_output_cache_key\<close> derives: the write changes that entry only, and the read
  looks that entry up.
\<close>

theorem cached_output_round_trip:
  "get_cached_output g st self (set_cached_output g st self cache pn inst html) pn inst = Some html \<and>
   set_cached_output g st self cache pn inst html =
     cache(get_output_cache_key g st self pn inst \<mapsto> html) \<and>
   get_cached_output g st self cache pn inst = cache (get_output_cache_key g st self pn inst)"
  by (simp add: get_cached_output_def set_cached_output_def)

text \<open>
  C6. With per-site caching enabled, two derivations of the key of the same item in the
  same placeholder give the same key when the current site id is the same, and
  different keys when the current site ids differ. The keys that
  \<open>get_output_cache_keys\<close> lists for different known site ids differ as well.
\<close>

theorem per_site_keys_distinguish_sites:
  assumes "cache_output_per_site self"
  shows "(get_output_cache_key g st1 self pn inst = get_output_cache_key g st2 self pn inst
            \<longleftrightarrow> SITE_ID st1 = SITE_ID st2) \<and>
         (distinct site_pks \<longrightarrow> distinct (get_output_cache_keys g st site_pks self pn inst))"
proof -
  have "inj (site_key (g pn inst))"
    by (simp add: inj_def site_key_inj)
  then have d: "distinct xs \<Longrightarrow> distinct (map (site_key (g pn inst)) xs)" for xs
    by (simp add: distinct_map inj_on_def inj_def)
  from assms have "distinct site_pks \<Longrightarrow> distinct (get_output_cache_keys g st site_pks self pn inst)"
    by (auto simp: get_output_cache_keys_def Let_def site_key_inj intro!: d)
  with assms show ?thesis
    by (simp add: get_output_cache_key_def site_key_inj)
qed

theorem per_site_keys_distinguish_sites_witness:
  "get_output_cache_key (\<lambda>p (i::nat). p) \<lparr>SITE_ID = 1, DEBUG = False\<rparr>
      ((init ''TextPlugin'' ())\<lparr>cache_output_per_site := True\<rparr>) ''main'' 7 \<noteq>
   get_output_cache_key (\<lambda>p (i::nat). p) \<lparr>SITE_ID = 2, DEBUG = False\<rparr>
      ((init ''TextPlugin'' ())\<lparr>cache_output_per_site := True\<rparr>) ''main'' 7 \<and>
   distinct (get_output_cache_keys (\<lambda>p (i::nat). p) \<lparr>SITE_ID = 3, DEBUG = False\<rparr> [1, 2]
      ((init ''TextPlugin'' ())\<lparr>cache_output_per_site := True\<rparr>) ''main'' 7)"
proof -
  have p: "cache_output_per_site ((init ''TextPlugin'' ())\<lparr>cache_output_per_site := True\<rparr>)"
    by simp
  show ?thesis
    using per_site_keys_distinguish_sites [OF p, where g = "\<lambda>p (i::nat). p"
        and ?st1.0 = "\<lparr>SITE_ID = 1, DEBUG = False\<rparr>"
        and ?st2.0 = "\<lparr>SITE_ID = 2, DEBUG = False\<rparr>" and pn = "''main''" and inst = 7
        and site_pks = "[1, 2]" and st = "\<lparr>SITE_ID = 3, DEBUG = False\<rparr>"]
    by simp
qed

text \<open>
  C7. For a plugin that caches its output but not per site, the key of a placeholder
  name and instance does not depend on the current site id: it is the base key under
  any settings, so an output stored under one site id is the one read under another.
\<close>

theorem shared_key_without_per_site:
  assumes "cache_output self" and "\<not> cache_output_per_site self"
  shows "get_output_cache_key g st1 self pn inst = get_output_cache_key g st2 self pn inst \<and>
         get_output_cache_key g st1 self pn inst = g pn inst \<and>
         get_cached_output g st2 self (set_cached_output g st1 self cache pn inst html) pn inst
           = Some html"
  using assms
  by (simp add: get_output_cache_key_def get_cached_output_def set_cached_output_def)

theorem shared_key_without_per_site_witness:
  "get_output_cache_key (\<lambda>p (i::nat). p) \<lparr>SITE_ID = 1, DEBUG = False\<rparr>
      (init ''TextPlugin'' ()) ''main'' 7 =
   get_output_cache_key (\<lambda>p (i::nat). p) \<lparr>SITE_ID = 2, DEBUG = False\<rparr>
      (init ''TextPlugin'' ()) ''main'' 7 \<and>
   get_cached_output (\<lambda>p (i::nat). p) \<lparr>SITE_ID = 2, DEBUG = False\<rparr> (init ''TextPlugin'' ())
      (set_cached_output (\<lambda>p (i::nat). p) \<lparr>SITE_ID = 1, DEBUG = False\<rparr> (init ''TextPlugin'' ())
         Map.empty ''main'' 7 ''<p>hello</p>'') ''main'' 7 = Some ''<p>hello</p>''"
proof -
  have c: "cache_output (init ''TextPlugin'' ())"
    and n: "\<not> cache_output_per_site (init ''TextPlugin'' ())"
    by (simp_all add: init_def)
  show ?thesis
    using shared_key_without_per_site [OF c n, where g = "\<lambda>p (i::nat). p"
        and ?st1.0 = "\<lparr>SITE_ID = 1, DEBUG = False\<rparr>"
        and ?st2.0 = "\<lparr>SITE_ID = 2, DEBUG = False\<rparr>" and pn = "''main''" and inst = 7
        and cache = Map.empty and html = "''<p>hello</p>''"]
    by simp
qed

text \<open>
  The state after a call of \<open>get_output_cache_key\<close> is the state that its call of
  \<open>get_rendering_cache_key\<close> leaves: the method writes nothing itself.
\<close>

lemma get_output_cache_key_call_state:
  "snd (get_output_cache_key_call grck pn inst ps) = snd (grck pn inst ps)"
  by (simp add: get_output_cache_key_call_def split: prod.split)

lemma get_output_cache_key_call_value:
  "fst (get_output_cache_key_call grck pn inst ps) =
     (if cache_output_per_site (plugin_object (snd (grck pn inst ps)))
      then fst (grck pn inst ps) @ ''-s'' @ str_int (SITE_ID (django_settings (snd (grck pn inst ps))))
      else fst (grck pn inst ps))"
  by (simp add: get_output_cache_key_call_def split: prod.split)

text \<open>
  C8. Let \<open>get_rendering_cache_key\<close> be pure: it returns a function \<open>g\<close> of the
  placeholder name and the instance and leaves the state as it is. Then a call of
  \<open>get_output_cache_key\<close> has no side effect: the state after it is the state before
  it, with the settings, the plugin object, the cache store and the site table
  untouched. Its result is the base key \<open>g pn inst\<close>, followed by \<^verbatim>\<open>-s\<close> and the
  current site id in decimal when the plugin caches per site. A second call with the
  same arguments returns the same key again and again changes nothing. The key is the
  same in any other state with the same per-site flag and current site id, whatever
  its cache store, site table, other settings and other plugin attributes are, and it
  is the key that the function \<open>get_output_cache_key\<close> above computes.
\<close>

theorem get_output_cache_key_deterministic:
  assumes pure: "\<And>pn inst ps. grck pn inst ps = (g pn inst, ps)"
  shows "get_output_cache_key_call grck pn inst ps =
           (if cache_output_per_site (plugin_object ps)
            then g pn inst @ ''-s'' @ str_int (SITE_ID (django_settings ps))
            else g pn inst, ps) \<and>
         get_output_cache_key_call grck pn inst (snd (get_output_cache_key_call grck pn inst ps)) =
           get_output_cache_key_call grck pn inst ps \<and>
         (SITE_ID (django_settings ps') = SITE_ID (django_settings ps) \<and>
          cache_output_per_site (plugin_object ps') = cache_output_per_site (plugin_object ps) \<longrightarrow>
            fst (get_output_cache_key_call grck pn inst ps') =
            fst (get_output_cache_key_call grck pn inst ps)) \<and>
         fst (get_output_cache_key_call grck pn inst ps) =
           get_output_cache_key g (django_settings ps) (plugin_object ps) pn inst"
proof -
  have st: "snd (get_output_cache_key_call grck pn inst q) = q" for q
    using get_output_cache_key_call_state [of grck pn inst q] by (simp add: pure)
  have val: "fst (get_output_cache_key_call grck pn inst q) =
      (if cache_output_per_site (plugin_object q)
       then g pn inst @ ''-s'' @ str_int (SITE_ID (django_settings q))
       else g pn inst)" for q
    using get_output_cache_key_call_value [of grck pn inst q] by (simp add: pure)
  have whole: "get_output_cache_key_call grck pn inst ps =
      (if cache_output_per_site (plugin_object ps)
       then g pn inst @ ''-s'' @ str_int (SITE_ID (django_settings ps))
       else g pn inst, ps)"
    using st [of ps] val [of ps] by (metis prod.collapse)
  have again: "get_output_cache_key_call grck pn inst
      (snd (get_output_cache_key_call grck pn inst ps)) = get_output_cache_key_call grck pn inst ps"
    by (simp add: st)
  have frame: "SITE_ID (django_settings ps') = SITE_ID (django_settings ps) \<and>
      cache_output_per_site (plugin_object ps') = cache_output_per_site (plugin_object ps) \<longrightarrow>
      fst (get_output_cache_key_call grck pn inst ps') =
      fst (get_output_cache_key_call grck pn inst ps)"
    by (simp add: val)
  have agree: "fst (get_output_cache_key_call grck pn inst ps) =
      get_output_cache_key g (django_settings ps) (plugin_object ps) pn inst"
    by (simp add: val get_output_cache_key_def site_key_def)
  from whole again frame agree show ?thesis
    by blast
qed

theorem get_output_cache_key_deterministic_witness:
  "get_output_cache_key_call (\<lambda>p (i::nat) q. (p, q)) ''main'' 7
      \<lparr>django_settings = \<lparr>SITE_ID = 4, DEBUG = False\<rparr>,
       plugin_object = (init ''TextPlugin'' ())\<lparr>cache_output_per_site := True\<rparr>,
       cache_store = [''main-s4'' \<mapsto> ''<p>old</p>''], site_table = [1, 2]\<rparr> =
     (''main-s4'',
      \<lparr>django_settings = \<lparr>SITE_ID = 4, DEBUG = False\<rparr>,
       plugin_object = (init ''TextPlugin'' ())\<lparr>cache_output_per_site := True\<rparr>,
       cache_store = [''main-s4'' \<mapsto> ''<p>old</p>''], site_table = [1, 2]\<rparr>) \<and>
   fst (get_output_cache_key_call (\<lambda>p (i::nat) q. (p, q)) ''main'' 7
      \<lparr>django_settings = \<lparr>SITE_ID = 4, DEBUG = True\<rparr>,
       plugin_object = (init ''FormPlugin'' ())\<lparr>cache_output_per_site := True, cache_output := False\<rparr>,
       cache_store = (Map.empty :: string \<rightharpoonup> string), site_table = []\<rparr>) = ''main-s4''"
proof -
  have pure: "(\<lambda>p (i::nat) q. (p, q)) pn inst ps = ((\<lambda>p (i::nat). p) pn inst, ps)"
    for pn inst and ps :: "(unit, string) process"
    by simp
  have four: "str_int 4 = ''4''"
    by (simp add: str_int_def str_nat.simps digit_char_def)
  show ?thesis
    using get_output_cache_key_deterministic [of "\<lambda>p (i::nat) q. (p, q)" "\<lambda>p (i::nat). p",
        OF pure, where pn = "''main''" and inst = 7 and
        ps = "\<lparr>django_settings = \<lparr>SITE_ID = 4, DEBUG = False\<rparr>,
          plugin_object = (init ''TextPlugin'' ())\<lparr>cache_output_per_site := True\<rparr>,
          cache_store = [''main-s4'' \<mapsto> ''<p>old</p>''], site_table = [1, 2]\<rparr>" and
        ps' = "\<lparr>django_settings = \<lparr>SITE_ID = 4, DEBUG = True\<rparr>,
          plugin_object = (init ''FormPlugin'' ())\<lparr>cache_output_per_site := True, cache_output := False\<rparr>,
          cache_store = (Map.empty :: string \<rightharpoonup> string), site_table = []\<rparr>"]
    by (simp add: four)
qed

section \<open>Properties of rendering\<close>

text \<open>
  C4. For every error, \<open>render_error\<close> returns the error block with the translated
  label and, after it, the string form of the error passed through \<open>escape\<close> and then
  \<open>linebreaks\<close>. Escaping replaces each of the characters \<open>&\<close>, \<open><\<close>, \<open>>\<close>, the
  double quote and the apostrophe of the message by its entity, so none of \<open><\<close>,
  \<open>>\<close> and the quotes is left in the escaped message; and in what is interpolated
  every \<open><\<close> opens a paragraph or line break tag written by \<open>linebreaks\<close>. Markup in
  the message, such as a script tag, therefore reaches the output as text.
\<close>

theorem render_error_escapes:
  "render_error ugettext error =
     ''<div style=\"color: red; border: 1px solid red; padding: 5px;\"><p><strong>'' @
     ugettext ''Error:'' @ ''</strong></p>'' @ linebreaks (escape (str error)) @ ''</div>'' \<and>
   escape (str error) = concat (map escape_char (str error)) \<and>
   CHR ''<'' \<notin> set (escape (str error)) \<and> CHR ''>'' \<notin> set (escape (str error)) \<and>
   CHR 0x22 \<notin> set (escape (str error)) \<and> CHR 0x27 \<notin> set (escape (str error)) \<and>
   only_linebreak_tags (linebreaks (escape (str error)))"
proof -
  have "only_linebreak_tags (linebreaks (escape (str error)))"
    by (rule olt_linebreaks) (rule escape_safe)
  moreover have "escape (str error) = concat (map escape_char (str error))"
    by (rule escape_concat_map)
  moreover have "render_error ugettext error =
     ''<div style=\"color: red; border: 1px solid red; padding: 5px;\"><p><strong>'' @
     ugettext ''Error:'' @ ''</strong></p>'' @ linebreaks (escape (str error)) @ ''</div>''"
    by (simp add: render_error_def)
  ultimately show ?thesis
    using escape_safe [of "str error"] by blast
qed

theorem render_error_escapes_witness:
  "render_error (\<lambda>s. s) (Exception ''<script>alert(1)</script>'') =
     ''<div style=\"color: red; border: 1px solid red; padding: 5px;\"><p><strong>Error:</strong></p><p>&lt;script&gt;alert(1)&lt;/script&gt;</p></div>'' \<and>
   only_linebreak_tags (linebreaks (escape (str (Exception ''<script>alert(1)</script>''))))"
proof -
  have "linebreaks (escape ''<script>alert(1)</script>'') =
      ''<p>&lt;script&gt;alert(1)&lt;/script&gt;</p>''"
    by (simp add: linebreaks_def escape_def replace_def)
  then show ?thesis
    using render_error_escapes [of "\<lambda>s. s" "Exception ''<script>alert(1)</script>''"]
    by simp
qed

text \<open>
  C5. When \<open>get_render_template\<close> returns \<open>None\<close>, \<open>render\<close> returns normally, and
  what it returns is the translation of the message
  \<^verbatim>\<open>{No rendering defined for class '<name>'}\<close>, whatever the template renderer and the
  context processors would do: they are not used.
\<close>

theorem render_without_template:
  assumes "get_render_template self request instance = None"
  shows "render ugettext django_render_to_string django_processors st self request instance =
           Inr (ugettext (''{No rendering defined for class '' @ [CHR 0x27] @ class_name self @
                          [CHR 0x27] @ ''}''))"
  using assms by (simp add: render_def no_rendering_message_def)

theorem render_without_template_witness:
  "render (\<lambda>s. s) (\<lambda>t c (ci :: string \<rightharpoonup> bool + unit). Inl (Exception ''TemplateDoesNotExist''))
      [] \<lparr>SITE_ID = 1, DEBUG = False\<rparr> (init ''TextPlugin'' ()) () (7::nat) =
   Inr (''{No rendering defined for class '' @ [CHR 0x27] @ ''TextPlugin'' @ [CHR 0x27] @ ''}'')"
proof -
  have t: "get_render_template (init ''TextPlugin'' ()) () (7::nat) = None"
    by (simp add: get_render_template_def init_def)
  show ?thesis
    using render_without_template [OF t, of "\<lambda>s. s"
        "\<lambda>t c (ci :: string \<rightharpoonup> bool + unit). Inl (Exception ''TemplateDoesNotExist'')"
        "[]" "\<lparr>SITE_ID = 1, DEBUG = False\<rparr>"]
    by (simp add: init_def)
qed

text \<open>
  C9. The default \<open>get_context\<close> returns the mapping whose only entry binds
  \<^verbatim>\<open>'instance'\<close> to the given instance.
\<close>

theorem get_context_default:
  "get_context request instance = Map.empty(''instance'' \<mapsto> instance) \<and>
   dom (get_context request instance) = {''instance''} \<and>
   get_context request instance ''instance'' = Some instance"
  by (simp add: get_context_def)

text \<open>
  C10. On a plugin whose type id is not yet memoised: when the content type lookup
  raises a database error, \<open>type_id\<close> raises a database error that says the content
  type could not be fetched and quotes the original message; when the lookup raises
  anything, \<open>type_id\<close> raises, returns no id and leaves the plugin as it was; when the
  lookup returns an id, \<open>type_id\<close> returns it and memoises it, and an access after
  that returns the same id and leaves the plugin unchanged, whatever the lookup would
  then do.
\<close>

theorem type_id_raises_or_memoises:
  assumes "priv_type_id self = None"
  shows "(get_for_model (model self) = Inl (DatabaseError msg) \<longrightarrow>
            type_id get_for_model self =
              (Inl (DatabaseError
                 (''Unable to fetch ContentType object, is a plugin being registered before the initial syncdb? (original error: ''
                  @ msg @ '')'')), self)) \<and>
         (get_for_model (model self) = Inl e \<longrightarrow>
            isl (fst (type_id get_for_model self)) \<and> snd (type_id get_for_model self) = self) \<and>
         (get_for_model (model self) = Inr n \<longrightarrow>
            type_id get_for_model self = (Inr n, self\<lparr>priv_type_id := Some n\<rparr>) \<and>
            type_id later_lookup (self\<lparr>priv_type_id := Some n\<rparr>) =
              (Inr n, self\<lparr>priv_type_id := Some n\<rparr>))"
  using assms by (cases e) (simp_all add: type_id_def)

theorem type_id_raises_or_memoises_witness:
  "type_id (\<lambda>m. Inl (DatabaseError ''no such table: django_content_type'')) (init ''TextPlugin'' ()) =
     (Inl (DatabaseError
        ''Unable to fetch ContentType object, is a plugin being registered before the initial syncdb? (original error: no such table: django_content_type)''),
      init ''TextPlugin'' ()) \<and>
   type_id (\<lambda>m. Inr 12) (init ''TextPlugin'' ()) =
     (Inr 12, (init ''TextPlugin'' ())\<lparr>priv_type_id := Some 12\<rparr>) \<and>
   type_id (\<lambda>m. Inl (DatabaseError ''gone'')) ((init ''TextPlugin'' ())\<lparr>priv_type_id := Some 12\<rparr>) =
     (Inr 12, (init ''TextPlugin'' ())\<lparr>priv_type_id := Some 12\<rparr>)"
proof -
  have u: "priv_type_id (init ''TextPlugin'' ()) = None"
    by (simp add: init_def)
  show ?thesis
    using type_id_raises_or_memoises [OF u,
        where get_for_model = "\<lambda>m. Inl (DatabaseError ''no such table: django_content_type'')"
        and msg = "''no such table: django_content_type''"]
      type_id_raises_or_memoises [OF u, where get_for_model = "\<lambda>m. Inr 12" and n = 12
        and later_lookup = "\<lambda>m. Inl (DatabaseError ''gone'')"]
    by simp
qed

end
